theory Spec2Isabelle
  imports Main "HOL-Library.Word"
begin

section \<open>The tunnel server of server.go\<close>

subsection \<open>Data model\<close>

text \<open>
  An identity (\<^verbatim>\<open>id.ID\<close>) is a fixed array of bytes; its \<^verbatim>\<open>Equals\<close> compares the
  two arrays byte for byte, so it is equality of the byte lists.
\<close>

type_synonym ID = "8 word list"

definition Equals :: "ID \<Rightarrow> ID \<Rightarrow> bool" where
  "Equals a b = (a = b)"

text \<open>
  A \<^verbatim>\<open>net.Conn\<close> is a handle with the two addresses the code reads from it. A
  \<^verbatim>\<open>net.Listener\<close> is a handle too; what its \<^verbatim>\<open>Accept\<close> answers is given below.
\<close>

record conn =
  fd :: nat
  RemoteAddr :: string
  LocalAddr :: string

datatype error =
    AlreadyConnected ID string
  | NoConnectionFor string
  | ClosedListener
  | AddrError string string
  | Extern string

record AllowedClient =
  ID :: ID
  Host :: string
  Listeners :: "nat list"

record ServerConfig =
  AllowedClients :: "AllowedClient list"

text \<open>
  What \<^verbatim>\<open>Accept\<close> on a listener answers: an error once the listener is closed, and
  otherwise the next answer of a script (a connection together with what its peer will do,
  or a transient error). \<open>accepted\<close> counts the answers taken from the script.
\<close>

record 'a listener =
  lnetwork :: string
  lclosed :: bool
  script :: "nat \<Rightarrow> error + 'a"
  accepted :: nat

definition Accept :: "'a listener \<Rightarrow> (error + 'a) \<times> 'a listener" where
  "Accept l =
     (if lclosed l then (Inl ClosedListener, l)
      else (script l (accepted l), l\<lparr>accepted := Suc (accepted l)\<rparr>))"

definition lClose :: "'a listener \<Rightarrow> error option \<times> 'a listener" where
  "lClose l = (if lclosed l then (Some ClosedListener, l) else (None, l\<lparr>lclosed := True\<rparr>))"

text \<open>
  What the peer of one control connection does: the result of \<^verbatim>\<open>peerID(conn)\<close>, of
  \<^verbatim>\<open>conn.SetDeadline\<close>, and of the handshake \<^verbatim>\<open>s.httpClient.Do(req)\<close> (a transport
  error, or the status code of the response). The three calls are taken to return.
\<close>

record control_io =
  peerID :: "error + ID"
  setDeadline :: "error option"
  handshake :: "error + nat"

text \<open>
  The server: its configuration, the control listener (\<open>None\<close> is the nil listener of a
  \<^verbatim>\<open>Server\<close> that \<^verbatim>\<open>NewServer\<close> did not build), the registry \<^verbatim>\<open>hostConn\<close>, and the
  connections on which \<^verbatim>\<open>Close\<close> has been called. The mutex \<^verbatim>\<open>hostConnMu\<close> makes every
  registry operation atomic, so each is one function on the state.
\<close>

record Server =
  config :: ServerConfig
  listener :: "(conn \<times> control_io) listener option"
  hostConn :: "string \<rightharpoonup> conn"
  closedConns :: "conn set"

subsection \<open>The registry\<close>

definition hostPort :: "string \<Rightarrow> string" where
  "hostPort host = host @ '':443''"

definition addHostConn :: "AllowedClient \<Rightarrow> conn \<Rightarrow> Server \<Rightarrow> error option \<times> Server" where
  "addHostConn client c s =
     (let key = hostPort (Host client) in
      case hostConn s key of
        Some c' \<Rightarrow> (Some (AlreadyConnected (ID client) (RemoteAddr c')), s)
      | None \<Rightarrow> (None, s\<lparr>hostConn := (hostConn s)(key \<mapsto> c)\<rparr>))"

definition deleteHostConn :: "string \<Rightarrow> Server \<Rightarrow> Server" where
  "deleteHostConn host s = s\<lparr>hostConn := (hostConn s)(hostPort host := None)\<rparr>"

text \<open>
  The \<^verbatim>\<open>DialTLS\<close> hook that \<^verbatim>\<open>initHTTPClient\<close> installs in the transport. It reads the
  registry under the read lock and nothing else; \<open>network\<close> is not used.
\<close>

definition DialTLS :: "Server \<Rightarrow> string \<Rightarrow> string \<Rightarrow> error + conn" where
  "DialTLS s network addr =
     (case hostConn s addr of
        None \<Rightarrow> Inl (NoConnectionFor addr)
      | Some c \<Rightarrow> Inr c)"

definition initHTTPClient :: "Server \<Rightarrow> Server" where
  "initHTTPClient s = s\<lparr>hostConn := Map.empty\<rparr>"

subsection \<open>The identity check\<close>

fun checkID_range :: "AllowedClient list \<Rightarrow> ID \<Rightarrow> AllowedClient option" where
  "checkID_range [] i = None"
| "checkID_range (c # cs) i = (if Equals i (ID c) then Some c else checkID_range cs i)"

definition checkID :: "Server \<Rightarrow> ID \<Rightarrow> AllowedClient option" where
  "checkID s i = checkID_range (AllowedClients (config s)) i"

subsection \<open>The handler of one control connection\<close>

text \<open>
  The path \<^verbatim>\<open>handleClient\<close> takes, one value for each of its log lines. The label
  \<^verbatim>\<open>reject\<close> closes the connection and, when \<^verbatim>\<open>client\<close> is not nil, deletes the entry of
  the client's host. \<open>valid_url host\<close> says whether \<^verbatim>\<open>http.NewRequest\<close> accepts
  \<^verbatim>\<open>url(host)\<close>; \<^verbatim>\<open>url\<close> is not part of server.go. A failed \<^verbatim>\<open>SetDeadline\<close> is logged
  and changes nothing.
\<close>

datatype outcome =
    Connected
  | CertificateError
  | UnknownCertificate
  | InvalidHost
  | CouldNotAddHost
  | HandshakeFailed

definition connClose :: "conn \<Rightarrow> Server \<Rightarrow> Server" where
  "connClose c s = s\<lparr>closedConns := insert c (closedConns s)\<rparr>"

definition reject :: "conn \<Rightarrow> AllowedClient option \<Rightarrow> Server \<Rightarrow> Server" where
  "reject c client s =
     (let s1 = connClose c s in
      case client of
        None \<Rightarrow> s1
      | Some cl \<Rightarrow> deleteHostConn (Host cl) s1)"

definition handleClient ::
  "(string \<Rightarrow> bool) \<Rightarrow> conn \<Rightarrow> control_io \<Rightarrow> Server \<Rightarrow> outcome \<times> Server" where
  "handleClient valid_url c io s =
     (case peerID io of
        Inl e \<Rightarrow> (CertificateError, reject c None s)
      | Inr i \<Rightarrow>
          (case checkID s i of
             None \<Rightarrow> (UnknownCertificate, reject c None s)
           | Some client \<Rightarrow>
               if \<not> valid_url (Host client) then (InvalidHost, reject c (Some client) s)
               else
                 (case addHostConn client c s of
                    (Some e, s1) \<Rightarrow> (CouldNotAddHost, reject c (Some client) s1)
                  | (None, s1) \<Rightarrow>
                      (case handshake io of
                         Inl e \<Rightarrow> (HandshakeFailed, reject c (Some client) s1)
                       | Inr status \<Rightarrow>
                           if status \<noteq> 200 then (HandshakeFailed, reject c (Some client) s1)
                           else (Connected, s1)))))"


subsection \<open>The accept loop of the control listener\<close>

text \<open>
  \<^verbatim>\<open>Server.Close\<close> returns nil for a nil listener; otherwise it closes the control
  listener and returns what the listener's \<^verbatim>\<open>Close\<close> returns.
\<close>

definition Close :: "Server \<Rightarrow> error option \<times> Server" where
  "Close s =
     (case listener s of
        None \<Rightarrow> (None, s)
      | Some l \<Rightarrow> (let (err, l') = lClose l in (err, s\<lparr>listener := Some l'\<rparr>)))"

text \<open>
  \<^verbatim>\<open>listenControl\<close> is \<^verbatim>\<open>for { ... }\<close> with a \<^verbatim>\<open>continue\<close> on a failed accept and no
  \<^verbatim>\<open>return\<close> or \<^verbatim>\<open>break\<close>: the call can end only by a run-time panic, and the one panic
  of the model is the method call on a nil \<^verbatim>\<open>s.listener\<close>. \<open>Some p\<close> is a call ended by the
  panic \<open>p\<close>; \<open>None\<close> is a loop that never ends. Each handler is started with \<^verbatim>\<open>go\<close>;
  here it runs to its end before the next accept.
\<close>

datatype panic = NilListener

partial_function (option) listenControl :: "(string \<Rightarrow> bool) \<Rightarrow> Server \<Rightarrow> panic option" where
  "listenControl valid_url s =
     (case listener s of
        None \<Rightarrow> Some NilListener
      | Some l \<Rightarrow>
          (case Accept l of
             (Inl err, l') \<Rightarrow> listenControl valid_url (s\<lparr>listener := Some l'\<rparr>)
           | (Inr (c, io), l') \<Rightarrow>
               listenControl valid_url
                 (snd (handleClient valid_url c io (s\<lparr>listener := Some l'\<rparr>)))))"

subsection \<open>The proxy operation\<close>

text \<open>
  The control message and its action belong to the package \<^verbatim>\<open>proto\<close>; the record has the
  fields that server.go sets.
\<close>

datatype action = RequestClientSession

record ControlMessage =
  Action :: action
  Protocol :: string
  ForwardedFor :: string
  ForwardedBy :: string
  URLPath :: string

text \<open>
  Modelled from the spec: the constant \<^verbatim>\<open>proto.HTTPProtocol\<close> of the package
  \<^verbatim>\<open>proto\<close>, which is not part of server.go; the specification gives the protocol of the
  HTTP entry point as "http".
\<close>

definition HTTPProtocol :: string where
  "HTTPProtocol = ''http''"

record http_request =
  rHost :: string
  rRemoteAddr :: string
  rURLPath :: string

text \<open>
  The two shapes of the arguments \<^verbatim>\<open>(w, r)\<close> of \<^verbatim>\<open>proxy\<close>: \<^verbatim>\<open>listen\<close> passes the
  accepted connection for both, \<^verbatim>\<open>ServeHTTP\<close> passes the response writer and the
  \<^verbatim>\<open>*http.Request\<close>. A connection is an \<^verbatim>\<open>io.Closer\<close>; a \<^verbatim>\<open>*http.Request\<close> has no
  method \<^verbatim>\<open>Close\<close> (it has a field of that name), so the type assertion
  \<^verbatim>\<open>r.(io.Closer)\<close> of the deferred function fails for it.
\<close>

datatype local_unit = Raw conn | Http http_request

text \<open>
  What the outside does during one proxy operation: whether the copy of the goroutine
  \<^verbatim>\<open>localToRemote\<close> (\<^verbatim>\<open>hr.Write\<close> or \<^verbatim>\<open>transfer\<close>) returns, the result of
  \<^verbatim>\<open>s.httpClient.Do(req)\<close> (\<open>None\<close> when the call never returns: there is no timeout),
  the result of \<^verbatim>\<open>http.ReadResponse\<close> (its status code), and whether the
  \<^verbatim>\<open>transfer\<close> of \<^verbatim>\<open>remoteToLocal\<close> returns.
\<close>

record proxy_io =
  l2rEnds :: bool
  roundTrip :: "(error + nat) option"
  readResponse :: "error + nat"
  r2lEnds :: bool

datatype r2l_result =
    ProxyingFailed error
  | ReadingResponseFailed error
  | Responded nat
  | Streamed

text \<open>
  The events of the goroutine that runs \<^verbatim>\<open>proxy\<close>, in program order: its two debug
  lines, the error line of a failed \<^verbatim>\<open>http.NewRequest\<close>, the return of
  \<^verbatim>\<open>remoteToLocal()\<close>, the receive \<^verbatim>\<open><-localToRemoteDone\<close> (which returns only after
  \<^verbatim>\<open>localToRemote\<close> has closed the channel, its last statement), and the three deferred
  calls, which run last-in first-out when the function returns.
\<close>

datatype event =
    StartProxying ControlMessage string
  | RequestCreationFailed
  | RemoteToLocalReturned r2l_result
  | LocalToRemoteDone
  | DoneProxying ControlMessage string
  | PipeWriterClosed
  | PipeReaderClosed
  | LocalClosed conn

definition remoteToLocal :: "local_unit \<Rightarrow> proxy_io \<Rightarrow> r2l_result option" where
  "remoteToLocal u io =
     (case roundTrip io of
        None \<Rightarrow> None
      | Some (Inl err) \<Rightarrow> Some (ProxyingFailed err)
      | Some (Inr resp) \<Rightarrow>
          (case u of
             Http r \<Rightarrow>
               (case readResponse io of
                  Inl err \<Rightarrow> Some (ReadingResponseFailed err)
                | Inr status \<Rightarrow> if r2lEnds io then Some (Responded status) else None)
           | Raw c \<Rightarrow> if r2lEnds io then Some Streamed else None))"

fun closeLocal :: "local_unit \<Rightarrow> Server \<Rightarrow> event list \<times> Server" where
  "closeLocal (Raw c) s = ([LocalClosed c], connClose c s)"
| "closeLocal (Http r) s = ([], s)"

definition deferred :: "local_unit \<Rightarrow> Server \<Rightarrow> event list \<times> Server" where
  "deferred u s =
     (let (evs, s') = closeLocal u s in ([PipeWriterClosed, PipeReaderClosed] @ evs, s'))"

text \<open>
  \<open>None\<close> is a call of \<^verbatim>\<open>proxy\<close> that never returns: \<^verbatim>\<open>remoteToLocal()\<close> does not
  return, or the receive from \<^verbatim>\<open>localToRemoteDone\<close> blocks for ever.
\<close>

definition proxy ::
  "(string \<Rightarrow> bool) \<Rightarrow> string \<Rightarrow> local_unit \<Rightarrow> ControlMessage \<Rightarrow> proxy_io \<Rightarrow> Server
     \<Rightarrow> (event list \<times> Server) option" where
  "proxy valid_url host u msg io s =
     (let (closing, s') = deferred u s in
      if \<not> valid_url host then
        Some ([StartProxying msg host, RequestCreationFailed] @ closing, s')
      else
        (case remoteToLocal u io of
           None \<Rightarrow> None
         | Some res \<Rightarrow>
             if l2rEnds io then
               Some ([StartProxying msg host, RemoteToLocalReturned res, LocalToRemoteDone,
                      DoneProxying msg host] @ closing, s')
             else None))"

subsection \<open>The raw accept loops and the HTTP entry point\<close>

text \<open>
  \<^verbatim>\<open>listen\<close> has the shape of \<^verbatim>\<open>listenControl\<close>. Its warning for a failed accept
  reads the address of \<^verbatim>\<open>s.listener\<close>, the control listener, which panics when that is
  nil. Each proxy operation is started with \<^verbatim>\<open>go\<close>; one that never returns leaves the
  state as it is.
\<close>

partial_function (option) listen ::
  "(string \<Rightarrow> bool) \<Rightarrow> (conn \<times> proxy_io) listener \<Rightarrow> AllowedClient \<Rightarrow> Server \<Rightarrow> panic option" where
  "listen valid_url l client s =
     (case Accept l of
        (Inl err, l') \<Rightarrow>
          (case listener s of
             None \<Rightarrow> Some NilListener
           | Some cl \<Rightarrow> listen valid_url l' client s)
      | (Inr (c, io), l') \<Rightarrow>
          (let msg = \<lparr>Action = RequestClientSession, Protocol = lnetwork l,
                      ForwardedFor = RemoteAddr c, ForwardedBy = LocalAddr c, URLPath = []\<rparr> in
           listen valid_url l' client
             (case proxy valid_url (Host client) (Raw c) msg io s of
                None \<Rightarrow> s
              | Some (evs, s') \<Rightarrow> s')))"

text \<open>
  \<^verbatim>\<open>net.SplitHostPort\<close> of the Go library: the port starts after the last colon; a host
  in brackets must end just before that colon; a host without brackets has no colon; no
  other bracket may occur. On an error the host and the port are empty.
\<close>

fun IndexByte :: "string \<Rightarrow> char \<Rightarrow> nat option" where
  "IndexByte [] b = None"
| "IndexByte (x # xs) b = (if x = b then Some 0 else map_option Suc (IndexByte xs b))"

definition lastIndex :: "string \<Rightarrow> char \<Rightarrow> nat option" where
  "lastIndex s b = map_option (\<lambda>i. length s - Suc i) (IndexByte (rev s) b)"

definition addrErr :: "string \<Rightarrow> string \<Rightarrow> string \<times> string \<times> error option" where
  "addrErr addr why = ([], [], Some (AddrError why addr))"

definition SplitHostPort :: "string \<Rightarrow> string \<times> string \<times> error option" where
  "SplitHostPort hostport =
     (case lastIndex hostport CHR '':'' of
        None \<Rightarrow> addrErr hostport ''missing port in address''
      | Some i \<Rightarrow>
          (let finish = (\<lambda>host j k.
                 if IndexByte (drop j hostport) CHR ''['' \<noteq> None
                   then addrErr hostport ''unexpected [ in address''
                 else if IndexByte (drop k hostport) CHR '']'' \<noteq> None
                   then addrErr hostport ''unexpected ] in address''
                 else (host, drop (Suc i) hostport, None)) in
           if hostport ! 0 = CHR ''['' then
             (case IndexByte hostport CHR '']'' of
                None \<Rightarrow> addrErr hostport ''missing ] in address''
              | Some e \<Rightarrow>
                  if Suc e = length hostport then addrErr hostport ''missing port in address''
                  else if Suc e = i then finish (take (e - 1) (drop 1 hostport)) 1 (Suc e)
                  else if hostport ! Suc e = CHR '':''
                    then addrErr hostport ''too many colons in address''
                  else addrErr hostport ''missing port in address'')
           else
             (let host = take i hostport in
              if IndexByte host CHR '':'' \<noteq> None
                then addrErr hostport ''too many colons in address''
              else finish host 0 0)))"

definition trimPort :: "string \<Rightarrow> string" where
  "trimPort hostPort' =
     (let (host, port, err) = SplitHostPort hostPort' in
      if host = [] then hostPort' else host)"

definition ServeHTTP ::
  "(string \<Rightarrow> bool) \<Rightarrow> http_request \<Rightarrow> proxy_io \<Rightarrow> Server \<Rightarrow> (event list \<times> Server) option" where
  "ServeHTTP valid_url r io s =
     (let msg = \<lparr>Action = RequestClientSession, Protocol = HTTPProtocol,
                 ForwardedFor = rRemoteAddr r, ForwardedBy = rHost r, URLPath = rURLPath r\<rparr> in
      proxy valid_url (trimPort (rHost r)) (Http r) msg io s)"

subsection \<open>Example values\<close>

definition ex_client :: AllowedClient where
  "ex_client = \<lparr>ID = [1, 2, 3], Host = ''a.example'', Listeners = []\<rparr>"

definition ex_conn1 :: conn where
  "ex_conn1 = \<lparr>fd = 1, RemoteAddr = ''10.0.0.1:5000'', LocalAddr = ''10.0.0.9:4443''\<rparr>"

definition ex_conn2 :: conn where
  "ex_conn2 = \<lparr>fd = 2, RemoteAddr = ''10.0.0.2:5000'', LocalAddr = ''10.0.0.9:4443''\<rparr>"

definition ex_server :: Server where
  "ex_server =
     \<lparr>config = \<lparr>AllowedClients = [ex_client]\<rparr>,
      listener = Some \<lparr>lnetwork = ''tcp'', lclosed = False,
                        script = (\<lambda>n. Inl (Extern ''timeout'')), accepted = 0\<rparr>,
      hostConn = Map.empty, closedConns = {}\<rparr>"

definition ex_registered :: Server where
  "ex_registered = snd (addHostConn ex_client ex_conn1 ex_server)"

definition ex_io :: "nat \<Rightarrow> control_io" where
  "ex_io status = \<lparr>peerID = Inr [1, 2, 3], setDeadline = None, handshake = Inr status\<rparr>"

definition ex_raw_listener :: "(conn \<times> proxy_io) listener" where
  "ex_raw_listener =
     \<lparr>lnetwork = ''tcp'', lclosed = False,
      script = (\<lambda>n. Inl (Extern ''timeout'')), accepted = 0\<rparr>"

definition ex_request :: http_request where
  "ex_request =
     \<lparr>rHost = ''a.example:8080'', rRemoteAddr = ''10.0.0.7:4000'', rURLPath = ''/status''\<rparr>"

definition ex_http_msg :: ControlMessage where
  "ex_http_msg =
     \<lparr>Action = RequestClientSession, Protocol = ''http'', ForwardedFor = ''10.0.0.7:4000'',
      ForwardedBy = ''a.example:8080'', URLPath = ''/status''\<rparr>"

definition ex_raw_msg :: ControlMessage where
  "ex_raw_msg =
     \<lparr>Action = RequestClientSession, Protocol = ''tcp'', ForwardedFor = ''10.0.0.2:5000'',
      ForwardedBy = ''10.0.0.9:4443'', URLPath = []\<rparr>"

definition ex_proxy_io :: proxy_io where
  "ex_proxy_io =
     \<lparr>l2rEnds = True, roundTrip = Some (Inr 200), readResponse = Inr 204, r2lEnds = True\<rparr>"

definition ex_no_route_io :: proxy_io where
  "ex_no_route_io =
     \<lparr>l2rEnds = True, roundTrip = Some (Inl (NoConnectionFor ''a.example:443'')),
      readResponse = Inr 200, r2lEnds = True\<rparr>"

section \<open>Properties\<close>

subsection \<open>Facts about the registry and the handler\<close>

lemma hostPort_example: "hostPort (Host ex_client) = ''a.example:443''"
  by (simp add: hostPort_def ex_client_def)

lemma ex_registered_entry: "hostConn ex_registered ''a.example:443'' = Some ex_conn1"
  by (simp add: ex_registered_def addHostConn_def ex_server_def hostPort_example)

lemma ex_registered_config: "config ex_registered = \<lparr>AllowedClients = [ex_client]\<rparr>"
  by (simp add: ex_registered_def addHostConn_def ex_server_def hostPort_example)

lemma ex_server_empty: "hostConn ex_server k = None"
  by (simp add: ex_server_def)

lemma checkID_example: "checkID ex_registered [1, 2, 3] = Some ex_client"
  by (simp add: checkID_def ex_registered_config) (simp add: ex_client_def Equals_def)

lemma addHostConn_absent:
  "hostConn s (hostPort (Host cl)) = None \<Longrightarrow>
   addHostConn cl c s = (None, s\<lparr>hostConn := (hostConn s)(hostPort (Host cl) \<mapsto> c)\<rparr>)"
  by (simp add: addHostConn_def)

lemma addHostConn_present:
  "hostConn s (hostPort (Host cl)) = Some c' \<Longrightarrow>
   addHostConn cl c s = (Some (AlreadyConnected (ID cl) (RemoteAddr c')), s)"
  by (simp add: addHostConn_def)

lemma reject_client:
  "c \<in> closedConns (reject c (Some cl) s)
   \<and> hostConn (reject c (Some cl) s) (hostPort (Host cl)) = None"
  by (simp add: reject_def connClose_def deleteHostConn_def)

lemma handleClient_Connected_only_200:
  "fst (handleClient valid_url c io s) = Connected \<Longrightarrow> handshake io = Inr 200"
  by (auto simp: handleClient_def split: sum.splits option.splits if_splits prod.splits)

subsection \<open>Duplicate registration\<close>

text \<open>
  C1. A control connection authenticates as a client whose host key is already in the
  registry. The registration fails and the new connection is closed, as the claim says.
  The existing entry is not left untouched: \<^verbatim>\<open>reject\<close> runs with \<^verbatim>\<open>client\<close> set, so
  \<^verbatim>\<open>deleteHostConn(client.Host)\<close> deletes the entry of the connection that was
  registered before, and the key is free afterwards.
\<close>

theorem handleClient_duplicate_deletes_existing:
  assumes "peerID io = Inr i" and "checkID s i = Some cl" and "valid_url (Host cl)"
    and "hostConn s (hostPort (Host cl)) = Some c0"
  shows "handleClient valid_url c io s
           = (CouldNotAddHost, deleteHostConn (Host cl) (connClose c s))
    \<and> c \<in> closedConns (snd (handleClient valid_url c io s))
    \<and> hostConn (snd (handleClient valid_url c io s)) (hostPort (Host cl)) = None"
proof -
  have "handleClient valid_url c io s = (CouldNotAddHost, reject c (Some cl) s)"
    using assms(1-3) by (simp add: handleClient_def addHostConn_present [OF assms(4)])
  then show ?thesis
    by (simp add: reject_def deleteHostConn_def connClose_def)
qed

theorem handleClient_duplicate_deletes_existing_witness:
  "hostConn ex_registered ''a.example:443'' = Some ex_conn1
   \<and> fst (handleClient (\<lambda>h. True) ex_conn2 (ex_io 200) ex_registered) = CouldNotAddHost
   \<and> ex_conn2 \<in> closedConns (snd (handleClient (\<lambda>h. True) ex_conn2 (ex_io 200) ex_registered))
   \<and> hostConn (snd (handleClient (\<lambda>h. True) ex_conn2 (ex_io 200) ex_registered))
        ''a.example:443'' = None"
proof -
  have a1: "peerID (ex_io 200) = Inr [1, 2, 3]" by (simp add: ex_io_def)
  have a3: "(\<lambda>h. True) (Host ex_client)" by simp
  have a4: "hostConn ex_registered (hostPort (Host ex_client)) = Some ex_conn1"
    by (simp add: hostPort_example ex_registered_entry)
  note h = handleClient_duplicate_deletes_existing [OF a1 checkID_example a3 a4, of ex_conn2]
  have "fst (handleClient (\<lambda>h. True) ex_conn2 (ex_io 200) ex_registered) = CouldNotAddHost"
    using h [THEN conjunct1] by simp
  moreover note h [THEN conjunct2, THEN conjunct1]
  moreover have "hostConn (snd (handleClient (\<lambda>h. True) ex_conn2 (ex_io 200) ex_registered))
      ''a.example:443'' = None"
    using h [THEN conjunct2, THEN conjunct2] by (simp only: hostPort_example)
  ultimately show ?thesis
    using ex_registered_entry by blast
qed

subsection \<open>The registry is test-and-set\<close>

text \<open>
  C2. In every state of the registry (so after every sequence of \<^verbatim>\<open>addHostConn\<close> and
  \<^verbatim>\<open>deleteHostConn\<close>), \<^verbatim>\<open>addHostConn\<close> returns an error exactly when the key of the
  client's host is occupied, and then leaves the state as it is; exactly when the key is
  absent it returns no error and stores the connection under the key. No other key
  changes, and a key never maps to more than one connection.
\<close>

theorem addHostConn_test_and_set:
  "(fst (addHostConn cl c s) \<noteq> None \<longleftrightarrow> hostConn s (hostPort (Host cl)) \<noteq> None)
   \<and> (hostConn s (hostPort (Host cl)) \<noteq> None \<longrightarrow> snd (addHostConn cl c s) = s)
   \<and> (hostConn s (hostPort (Host cl)) = None \<longrightarrow>
        snd (addHostConn cl c s) = s\<lparr>hostConn := (hostConn s)(hostPort (Host cl) \<mapsto> c)\<rparr>)
   \<and> (\<forall>k. k \<noteq> hostPort (Host cl) \<longrightarrow> hostConn (snd (addHostConn cl c s)) k = hostConn s k)
   \<and> (\<forall>k. card {x. hostConn (snd (addHostConn cl c s)) k = Some x} \<le> 1)"
proof -
  have one: "\<forall>k. card {x. hostConn (snd (addHostConn cl c s)) k = Some x} \<le> 1"
  proof
    fix k
    show "card {x. hostConn (snd (addHostConn cl c s)) k = Some x} \<le> 1"
      by (cases "hostConn (snd (addHostConn cl c s)) k") simp_all
  qed
  have rest:
    "(fst (addHostConn cl c s) \<noteq> None \<longleftrightarrow> hostConn s (hostPort (Host cl)) \<noteq> None)
     \<and> (hostConn s (hostPort (Host cl)) \<noteq> None \<longrightarrow> snd (addHostConn cl c s) = s)
     \<and> (hostConn s (hostPort (Host cl)) = None \<longrightarrow>
          snd (addHostConn cl c s) = s\<lparr>hostConn := (hostConn s)(hostPort (Host cl) \<mapsto> c)\<rparr>)
     \<and> (\<forall>k. k \<noteq> hostPort (Host cl) \<longrightarrow> hostConn (snd (addHostConn cl c s)) k = hostConn s k)"
    by (cases "hostConn s (hostPort (Host cl))") (simp_all add: addHostConn_def)
  from rest one show ?thesis by blast
qed

theorem addHostConn_test_and_set_witness:
  "fst (addHostConn ex_client ex_conn1 ex_server) = None
   \<and> hostConn (snd (addHostConn ex_client ex_conn1 ex_server)) ''a.example:443'' = Some ex_conn1
   \<and> fst (addHostConn ex_client ex_conn2 ex_registered) \<noteq> None
   \<and> snd (addHostConn ex_client ex_conn2 ex_registered) = ex_registered"
proof -
  have free: "hostConn ex_server (hostPort (Host ex_client)) = None"
    by (rule ex_server_empty)
  have taken: "hostConn ex_registered (hostPort (Host ex_client)) \<noteq> None"
    by (simp add: hostPort_example ex_registered_entry)
  note first = addHostConn_test_and_set [of ex_client ex_conn1 ex_server]
  note second = addHostConn_test_and_set [of ex_client ex_conn2 ex_registered]
  have "fst (addHostConn ex_client ex_conn1 ex_server) = None"
    using first [THEN conjunct1] free by simp
  moreover have "hostConn (snd (addHostConn ex_client ex_conn1 ex_server)) ''a.example:443''
      = Some ex_conn1"
    using first [THEN conjunct2, THEN conjunct2, THEN conjunct1] free
    by (simp add: hostPort_example)
  moreover have "fst (addHostConn ex_client ex_conn2 ex_registered) \<noteq> None"
    using second [THEN conjunct1] taken by simp
  moreover have "snd (addHostConn ex_client ex_conn2 ex_registered) = ex_registered"
    using second [THEN conjunct2, THEN conjunct1] taken by simp
  ultimately show ?thesis by blast
qed

subsection \<open>Removal\<close>

text \<open>
  C8. \<^verbatim>\<open>deleteHostConn\<close> on a host whose key is absent leaves the state as it is, so
  deleting twice is deleting once; and after \<^verbatim>\<open>deleteHostConn\<close> of a host,
  \<^verbatim>\<open>addHostConn\<close> of a client with that host returns no error and stores the connection,
  whatever the registry held before.
\<close>

theorem deleteHostConn_then_addHostConn:
  "(hostConn s (hostPort h) = None \<longrightarrow> deleteHostConn h s = s)
   \<and> deleteHostConn h (deleteHostConn h s) = deleteHostConn h s
   \<and> hostConn (deleteHostConn h s) (hostPort h) = None
   \<and> (\<forall>cl c. Host cl = h \<longrightarrow>
        fst (addHostConn cl c (deleteHostConn h s)) = None
        \<and> hostConn (snd (addHostConn cl c (deleteHostConn h s))) (hostPort h) = Some c)"
proof -
  have a: "hostConn s (hostPort h) = None \<longrightarrow> deleteHostConn h s = s"
  proof
    assume "hostConn s (hostPort h) = None"
    then have "(hostConn s)(hostPort h := None) = hostConn s"
      by (simp add: fun_upd_idem)
    then show "deleteHostConn h s = s"
      by (simp add: deleteHostConn_def)
  qed
  have b: "deleteHostConn h (deleteHostConn h s) = deleteHostConn h s"
    by (simp add: deleteHostConn_def)
  have c: "hostConn (deleteHostConn h s) (hostPort h) = None"
    by (simp add: deleteHostConn_def)
  have d: "\<forall>cl c. Host cl = h \<longrightarrow>
        fst (addHostConn cl c (deleteHostConn h s)) = None
        \<and> hostConn (snd (addHostConn cl c (deleteHostConn h s))) (hostPort h) = Some c"
    by (simp add: deleteHostConn_def addHostConn_def)
  from a b c d show ?thesis by blast
qed

theorem deleteHostConn_then_addHostConn_witness:
  "deleteHostConn ''a.example'' ex_server = ex_server
   \<and> fst (addHostConn ex_client ex_conn2 (deleteHostConn ''a.example'' ex_registered)) = None
   \<and> hostConn (snd (addHostConn ex_client ex_conn2 (deleteHostConn ''a.example'' ex_registered)))
        ''a.example:443'' = Some ex_conn2"
proof -
  have absent: "hostConn ex_server (hostPort ''a.example'') = None"
    by (rule ex_server_empty)
  have host: "Host ex_client = ''a.example''"
    by (simp add: ex_client_def)
  have key: "hostPort ''a.example'' = ''a.example:443''"
    by (simp add: hostPort_def)
  note empty = deleteHostConn_then_addHostConn [of ex_server "''a.example''"]
  note full = deleteHostConn_then_addHostConn [of ex_registered "''a.example''"]
  have "deleteHostConn ''a.example'' ex_server = ex_server"
    using empty [THEN conjunct1] absent by simp
  moreover have "fst (addHostConn ex_client ex_conn2 (deleteHostConn ''a.example'' ex_registered)) = None
     \<and> hostConn (snd (addHostConn ex_client ex_conn2 (deleteHostConn ''a.example'' ex_registered)))
          ''a.example:443'' = Some ex_conn2"
    using full [THEN conjunct2, THEN conjunct2, THEN conjunct2] host by (simp add: key)
  ultimately show ?thesis by blast
qed

subsection \<open>The dial hook\<close>

text \<open>
  C4. For every destination address, \<^verbatim>\<open>DialTLS\<close> returns the connection that the registry
  holds under that address when there is one, and fails with the error "no connection for
  addr" when there is none. A connection it returns is always one of the registry: the hook
  reads the map and opens nothing.
\<close>

theorem DialTLS_registry_lookup:
  "(\<forall>c. hostConn s addr = Some c \<longrightarrow> DialTLS s network addr = Inr c)
   \<and> (hostConn s addr = None \<longrightarrow> DialTLS s network addr = Inl (NoConnectionFor addr))
   \<and> (\<forall>c. DialTLS s network addr = Inr c \<longrightarrow> c \<in> ran (hostConn s))"
  by (auto simp: DialTLS_def ran_def split: option.splits)

theorem DialTLS_registry_lookup_witness:
  "DialTLS ex_registered ''tcp'' ''a.example:443'' = Inr ex_conn1
   \<and> ex_conn1 \<in> ran (hostConn ex_registered)
   \<and> DialTLS ex_server ''tcp'' ''b.example:443'' = Inl (NoConnectionFor ''b.example:443'')"
proof -
  note hit = DialTLS_registry_lookup [of ex_registered "''a.example:443''" "''tcp''"]
  note miss = DialTLS_registry_lookup [of ex_server "''b.example:443''" "''tcp''"]
  have r: "DialTLS ex_registered ''tcp'' ''a.example:443'' = Inr ex_conn1"
    using hit [THEN conjunct1] ex_registered_entry by blast
  moreover have "ex_conn1 \<in> ran (hostConn ex_registered)"
    using hit [THEN conjunct2, THEN conjunct2] r by blast
  moreover have "DialTLS ex_server ''tcp'' ''b.example:443'' = Inl (NoConnectionFor ''b.example:443'')"
    using miss [THEN conjunct2, THEN conjunct1] by (simp add: ex_server_empty)
  ultimately show ?thesis by blast
qed

subsection \<open>The identity check\<close>

lemma checkID_range_find: "checkID_range cs i = find (\<lambda>c. ID c = i) cs"
  by (induction cs) (auto simp: Equals_def)

lemma checkID_range_None: "checkID_range cs i = None \<longleftrightarrow> (\<forall>c \<in> set cs. ID c \<noteq> i)"
  by (induction cs) (auto simp: Equals_def)

lemma checkID_range_Some: "checkID_range cs i = Some c \<Longrightarrow> c \<in> set cs \<and> ID c = i"
  by (induction cs) (auto simp: Equals_def split: if_splits)

text \<open>
  C5. For every peer identity, \<^verbatim>\<open>checkID\<close> accepts exactly when some entry of
  \<^verbatim>\<open>AllowedClients\<close> has an equal identity; the client it returns is an entry of the list
  with that identity (the first one, as the scan runs from the front); and it rejects
  exactly the identities that no entry has.
\<close>

theorem checkID_accepts_listed_identities:
  "((\<exists>c. checkID s i = Some c) \<longleftrightarrow> (\<exists>c \<in> set (AllowedClients (config s)). ID c = i))
   \<and> (\<forall>c. checkID s i = Some c \<longrightarrow> c \<in> set (AllowedClients (config s)) \<and> ID c = i)
   \<and> (checkID s i = None \<longleftrightarrow> (\<forall>c \<in> set (AllowedClients (config s)). ID c \<noteq> i))
   \<and> checkID s i = find (\<lambda>c. ID c = i) (AllowedClients (config s))"
proof -
  have n: "checkID s i = None \<longleftrightarrow> (\<forall>c \<in> set (AllowedClients (config s)). ID c \<noteq> i)"
    by (simp add: checkID_def checkID_range_None)
  have m: "\<forall>c. checkID s i = Some c \<longrightarrow> c \<in> set (AllowedClients (config s)) \<and> ID c = i"
    by (simp add: checkID_def checkID_range_Some)
  have f: "checkID s i = find (\<lambda>c. ID c = i) (AllowedClients (config s))"
    by (simp add: checkID_def checkID_range_find)
  have "(\<exists>c. checkID s i = Some c) \<longleftrightarrow> checkID s i \<noteq> None"
    by auto
  with n m f show ?thesis by blast
qed

theorem checkID_accepts_listed_identities_witness:
  "(\<exists>c. checkID ex_server [1, 2, 3] = Some c) \<and> checkID ex_server [9] = None"
proof -
  have listed: "\<exists>c \<in> set (AllowedClients (config ex_server)). ID c = [1, 2, 3]"
    by (simp add: ex_server_def ex_client_def)
  have unlisted: "\<forall>c \<in> set (AllowedClients (config ex_server)). ID c \<noteq> [9]"
    by (simp add: ex_server_def ex_client_def)
  have "\<exists>c. checkID ex_server [1, 2, 3] = Some c"
    using checkID_accepts_listed_identities [of ex_server "[1, 2, 3]", THEN conjunct1] listed
    by blast
  moreover have "checkID ex_server [9] = None"
    using checkID_accepts_listed_identities [of ex_server "[9]", THEN conjunct2, THEN conjunct2,
        THEN conjunct1] unlisted
    by blast
  ultimately show ?thesis by blast
qed

subsection \<open>Failed authentication\<close>

text \<open>
  C7. When authentication fails, because \<^verbatim>\<open>peerID\<close> returns an error or because
  \<^verbatim>\<open>checkID\<close> finds no client, \<^verbatim>\<open>handleClient\<close> closes the connection and does nothing
  else: \<^verbatim>\<open>client\<close> is nil at \<^verbatim>\<open>reject\<close>, so the registry is the one before the call, with
  no entry created and none removed.
\<close>

theorem failed_authentication_keeps_registry:
  assumes "(\<exists>e. peerID io = Inl e) \<or> (\<exists>i. peerID io = Inr i \<and> checkID s i = None)"
  shows "snd (handleClient valid_url c io s) = connClose c s
    \<and> c \<in> closedConns (snd (handleClient valid_url c io s))
    \<and> hostConn (snd (handleClient valid_url c io s)) = hostConn s
    \<and> (fst (handleClient valid_url c io s) = CertificateError
        \<or> fst (handleClient valid_url c io s) = UnknownCertificate)"
proof -
  have "handleClient valid_url c io s = (CertificateError, connClose c s)
      \<or> handleClient valid_url c io s = (UnknownCertificate, connClose c s)"
    using assms by (auto simp: handleClient_def reject_def)
  then show ?thesis by (auto simp: connClose_def)
qed

theorem failed_authentication_keeps_registry_witness:
  "hostConn (snd (handleClient (\<lambda>h. True) ex_conn2
       \<lparr>peerID = Inl (Extern ''no peer certificate''), setDeadline = None, handshake = Inr 200\<rparr>
       ex_registered)) = hostConn ex_registered
   \<and> ex_conn2 \<in> closedConns (snd (handleClient (\<lambda>h. True) ex_conn2
       \<lparr>peerID = Inr [9], setDeadline = None, handshake = Inr 200\<rparr> ex_registered))
   \<and> hostConn (snd (handleClient (\<lambda>h. True) ex_conn2
       \<lparr>peerID = Inr [9], setDeadline = None, handshake = Inr 200\<rparr> ex_registered))
       = hostConn ex_registered"
proof -
  let ?bad = "\<lparr>peerID = Inl (Extern ''no peer certificate''), setDeadline = None,
     handshake = Inr 200\<rparr>"
  let ?unknown = "\<lparr>peerID = Inr [9], setDeadline = None, handshake = Inr 200\<rparr>"
  have nine: "checkID ex_registered [9] = None"
    by (simp add: checkID_def ex_registered_config) (simp add: ex_client_def Equals_def)
  have h1: "(\<exists>e. peerID ?bad = Inl e) \<or> (\<exists>i. peerID ?bad = Inr i \<and> checkID ex_registered i = None)"
    by simp
  have h2: "(\<exists>e. peerID ?unknown = Inl e)
      \<or> (\<exists>i. peerID ?unknown = Inr i \<and> checkID ex_registered i = None)"
    using nine by simp
  note bad = failed_authentication_keeps_registry [OF h1, of "\<lambda>h. True" ex_conn2]
  note unknown = failed_authentication_keeps_registry [OF h2, of "\<lambda>h. True" ex_conn2]
  from bad [THEN conjunct2, THEN conjunct2, THEN conjunct1]
    unknown [THEN conjunct2, THEN conjunct1]
    unknown [THEN conjunct2, THEN conjunct2, THEN conjunct1]
  show ?thesis by blast
qed

subsection \<open>The handshake\<close>

text \<open>
  C6. For a control connection that has been registered (its peer is an allowed client,
  the request for its host could be built, and the key of its host was free),
  \<^verbatim>\<open>handleClient\<close> ends on its success path exactly when the handshake round trip returns
  status 200, and the entry then maps the key to this connection. On a transport error or
  any other status the connection is closed and the entry of that host is removed.
\<close>

theorem handshake_decides_registration:
  assumes "peerID io = Inr i" and "checkID s i = Some cl" and "valid_url (Host cl)"
    and "hostConn s (hostPort (Host cl)) = None"
  shows "(fst (handleClient valid_url c io s) = Connected \<longleftrightarrow> handshake io = Inr 200)
    \<and> (handshake io = Inr 200 \<longrightarrow>
         snd (handleClient valid_url c io s)
           = s\<lparr>hostConn := (hostConn s)(hostPort (Host cl) \<mapsto> c)\<rparr>)
    \<and> (handshake io \<noteq> Inr 200 \<longrightarrow>
         fst (handleClient valid_url c io s) = HandshakeFailed
         \<and> c \<in> closedConns (snd (handleClient valid_url c io s))
         \<and> hostConn (snd (handleClient valid_url c io s)) (hostPort (Host cl)) = None)"
proof -
  let ?s1 = "s\<lparr>hostConn := (hostConn s)(hostPort (Host cl) \<mapsto> c)\<rparr>"
  have add: "addHostConn cl c s = (None, ?s1)"
    using assms(4) by (rule addHostConn_absent)
  have step: "handleClient valid_url c io s =
      (case handshake io of
         Inl e \<Rightarrow> (HandshakeFailed, reject c (Some cl) ?s1)
       | Inr status \<Rightarrow>
           if status \<noteq> 200 then (HandshakeFailed, reject c (Some cl) ?s1) else (Connected, ?s1))"
    using assms(1-3) by (simp add: handleClient_def add)
  note rej = reject_client [of c cl ?s1]
  show ?thesis
  proof (cases "handshake io")
    case (Inl e)
    with step rej show ?thesis by simp
  next
    case (Inr status)
    with step rej show ?thesis by (cases "status = 200") simp_all
  qed
qed

theorem handshake_decides_registration_witness:
  "fst (handleClient (\<lambda>h. True) ex_conn1 (ex_io 200) ex_server) = Connected
   \<and> fst (handleClient (\<lambda>h. True) ex_conn1 (ex_io 503) ex_server) = HandshakeFailed
   \<and> ex_conn1 \<in> closedConns (snd (handleClient (\<lambda>h. True) ex_conn1 (ex_io 503) ex_server))
   \<and> hostConn (snd (handleClient (\<lambda>h. True) ex_conn1 (ex_io 503) ex_server))
        ''a.example:443'' = None"
proof -
  have a1: "peerID (ex_io n) = Inr [1, 2, 3]" for n
    by (simp add: ex_io_def)
  have a2: "checkID ex_server [1, 2, 3] = Some ex_client"
    by (simp add: checkID_def ex_server_def) (simp add: ex_client_def Equals_def)
  have a3: "(\<lambda>h. True) (Host ex_client)"
    by simp
  have a4: "hostConn ex_server (hostPort (Host ex_client)) = None"
    by (rule ex_server_empty)
  note ok = handshake_decides_registration
    [where io = "ex_io 200" and c = ex_conn1, OF a1 a2 a3 a4]
  note bad = handshake_decides_registration
    [where io = "ex_io 503" and c = ex_conn1, OF a1 a2 a3 a4]
  have "fst (handleClient (\<lambda>h. True) ex_conn1 (ex_io 200) ex_server) = Connected"
    using ok [THEN conjunct1] by (simp add: ex_io_def)
  moreover have "fst (handleClient (\<lambda>h. True) ex_conn1 (ex_io 503) ex_server) = HandshakeFailed
     \<and> ex_conn1 \<in> closedConns (snd (handleClient (\<lambda>h. True) ex_conn1 (ex_io 503) ex_server))
     \<and> hostConn (snd (handleClient (\<lambda>h. True) ex_conn1 (ex_io 503) ex_server))
          ''a.example:443'' = None"
    using bad [THEN conjunct2, THEN conjunct2] by (simp add: ex_io_def hostPort_example)
  ultimately show ?thesis by blast
qed

subsection \<open>The accept loops\<close>

text \<open>
  Neither loop has a path on which it returns: by fixpoint induction, a call can end only
  in a state whose control listener is nil.
\<close>

lemma handleClient_listener: "listener (snd (handleClient valid_url c io s)) = listener s"
  by (auto simp: handleClient_def reject_def connClose_def deleteHostConn_def addHostConn_def
      Let_def split: sum.splits option.splits)

lemma proxy_listener: "proxy valid_url host u msg io s = Some (evs, s') \<Longrightarrow> listener s' = listener s"
  by (cases u) (auto simp: proxy_def deferred_def connClose_def split: option.splits if_splits)

lemma listenControl_ends_nil:
  assumes "listenControl valid_url s = Some p"
  shows "listener s = None"
proof (rule listenControl.raw_induct [where P = "\<lambda>v s y. listener s = None", OF _ assms])
  fix f :: "(string \<Rightarrow> bool) \<Rightarrow> Server \<Rightarrow> panic option" and v s y
  assume IH: "\<And>v s y. f v s = Some y \<Longrightarrow> listener s = None"
  assume step: "(case listener s of
        None \<Rightarrow> Some NilListener
      | Some l \<Rightarrow>
          (case Accept l of
             (Inl err, l') \<Rightarrow> f v (s\<lparr>listener := Some l'\<rparr>)
           | (Inr (c, io), l') \<Rightarrow>
               f v (snd (handleClient v c io (s\<lparr>listener := Some l'\<rparr>))))) = Some y"
  show "listener s = None"
  proof (cases "listener s")
    case None
    then show ?thesis .
  next
    case (Some l)
    obtain r l' where acc: "Accept l = (r, l')" by (cases "Accept l")
    show ?thesis
    proof (cases r)
      case (Inl err)
      with step Some acc have "f v (s\<lparr>listener := Some l'\<rparr>) = Some y" by simp
      from IH [OF this] show ?thesis by simp
    next
      case (Inr ci)
      obtain c io where ci: "ci = (c, io)" by (cases ci)
      with step Some acc Inr
      have "f v (snd (handleClient v c io (s\<lparr>listener := Some l'\<rparr>))) = Some y" by simp
      from IH [OF this] show ?thesis by (simp add: handleClient_listener)
    qed
  qed
qed

lemma listen_ends_nil:
  assumes "listen valid_url l client s = Some p"
  shows "listener s = None"
proof (rule listen.raw_induct [where P = "\<lambda>v l c s y. listener s = None", OF _ assms])
  fix f :: "(string \<Rightarrow> bool) \<Rightarrow> (conn \<times> proxy_io) listener \<Rightarrow> AllowedClient \<Rightarrow> Server
      \<Rightarrow> panic option"
    and v l client s y
  assume IH: "\<And>v l c s y. f v l c s = Some y \<Longrightarrow> listener s = None"
  assume step: "(case Accept l of
        (Inl err, l') \<Rightarrow>
          (case listener s of
             None \<Rightarrow> Some NilListener
           | Some cl \<Rightarrow> f v l' client s)
      | (Inr (c, io), l') \<Rightarrow>
          (let msg = \<lparr>Action = RequestClientSession, Protocol = lnetwork l,
                      ForwardedFor = RemoteAddr c, ForwardedBy = LocalAddr c, URLPath = []\<rparr> in
           f v l' client
             (case proxy v (Host client) (Raw c) msg io s of
                None \<Rightarrow> s
              | Some (evs, s') \<Rightarrow> s'))) = Some y"
  obtain r l' where acc: "Accept l = (r, l')" by (cases "Accept l")
  show "listener s = None"
  proof (cases r)
    case (Inl err)
    show ?thesis
    proof (cases "listener s")
      case None
      then show ?thesis .
    next
      case (Some cl)
      with step acc Inl have "f v l' client s = Some y" by simp
      from IH [OF this] show ?thesis .
    qed
  next
    case (Inr ci)
    obtain c io where ci: "ci = (c, io)" by (cases ci)
    let ?msg = "\<lparr>Action = RequestClientSession, Protocol = lnetwork l,
        ForwardedFor = RemoteAddr c, ForwardedBy = LocalAddr c, URLPath = []\<rparr>"
    let ?s2 = "case proxy v (Host client) (Raw c) ?msg io s of None \<Rightarrow> s | Some (evs, s') \<Rightarrow> s'"
    from step acc Inr ci have "f v l' client ?s2 = Some y" by (simp add: Let_def)
    from IH [OF this] have nil: "listener ?s2 = None" .
    have "listener ?s2 = listener s"
      by (auto split: option.splits dest: proxy_listener)
    with nil show ?thesis by simp
  qed
qed

lemma listenControl_None: "listener s \<noteq> None \<Longrightarrow> listenControl valid_url s = None"
  using listenControl_ends_nil [of valid_url s] by (cases "listenControl valid_url s") auto

lemma listen_None: "listener s \<noteq> None \<Longrightarrow> listen valid_url l client s = None"
  using listen_ends_nil [of valid_url l client s] by (cases "listen valid_url l client s") auto

lemma Accept_closed: "lclosed l \<Longrightarrow> Accept l = (Inl ClosedListener, l)"
  by (simp add: Accept_def)

lemma lClose_closed: "lclosed (snd (lClose l))"
  by (simp add: lClose_def)

lemma Close_listener:
  "listener s = Some l \<Longrightarrow> listener (snd (Close s)) = Some (snd (lClose l))"
  by (simp add: Close_def split: prod.splits)

text \<open>
  C3 as the claim states it fails: after \<^verbatim>\<open>Close\<close> every \<^verbatim>\<open>Accept\<close> of the control
  listener returns the error of a closed listener and leaves the listener as it is, and
  \<^verbatim>\<open>listenControl\<close> started in that state never ends.
\<close>

theorem closed_listener_loop_counterexample:
  "listener (snd (Close ex_server))
     = Some \<lparr>lnetwork = ''tcp'', lclosed = True,
             script = (\<lambda>n. Inl (Extern ''timeout'')), accepted = 0\<rparr>
   \<and> Accept \<lparr>lnetwork = ''tcp'', lclosed = True,
             script = (\<lambda>n. Inl (Extern ''timeout'') :: error + conn \<times> control_io), accepted = 0\<rparr>
       = (Inl ClosedListener,
          \<lparr>lnetwork = ''tcp'', lclosed = True,
           script = (\<lambda>n. Inl (Extern ''timeout'')), accepted = 0\<rparr>)
   \<and> listenControl (\<lambda>h. True) (snd (Close ex_server)) = None"
proof -
  have c: "listener (snd (Close ex_server))
     = Some \<lparr>lnetwork = ''tcp'', lclosed = True,
             script = (\<lambda>n. Inl (Extern ''timeout'')), accepted = 0\<rparr>"
    by (simp add: Close_def lClose_def ex_server_def)
  then have "listener (snd (Close ex_server)) \<noteq> None"
    by simp
  from c this [THEN listenControl_None, of "\<lambda>h. True"] show ?thesis
    by (simp add: Accept_def)
qed

text \<open>
  C3, amended. For a server with a control listener: after \<^verbatim>\<open>Close\<close> the control
  listener is closed and \<^verbatim>\<open>Accept\<close> fails on it, and the same holds for a raw listener
  that is closed; the accept loops treat that failure like every other failed accept and
  go on to the next iteration. Neither \<^verbatim>\<open>listenControl\<close> nor \<^verbatim>\<open>listen\<close> has a path on
  which it returns, so neither loop ever exits, whether its listener is closed or not.
\<close>

theorem accept_loops_never_exit:
  assumes "listener s = Some cl"
  shows "listener (snd (Close s)) = Some (snd (lClose cl))
   \<and> Accept (snd (lClose cl)) = (Inl ClosedListener, snd (lClose cl))
   \<and> listenControl valid_url (snd (Close s)) = None
   \<and> listenControl valid_url s = None
   \<and> Accept (snd (lClose l)) = (Inl ClosedListener, snd (lClose l))
   \<and> listen valid_url (snd (lClose l)) client s = None
   \<and> listen valid_url l client s = None"
proof -
  note c = Close_listener [OF assms]
  have open_s: "listener s \<noteq> None"
    using assms by simp
  have closed_s: "listener (snd (Close s)) \<noteq> None"
    using c by simp
  show ?thesis
    by (simp add: c Accept_closed [OF lClose_closed] listenControl_None [OF closed_s]
        listenControl_None [OF open_s] listen_None [OF open_s])
qed

theorem accept_loops_never_exit_witness:
  "listenControl (\<lambda>h. True) (snd (Close ex_server)) = None
   \<and> listen (\<lambda>h. True) (snd (lClose ex_raw_listener)) ex_client ex_server = None"
proof -
  have l: "listener ex_server = Some \<lparr>lnetwork = ''tcp'', lclosed = False,
      script = (\<lambda>n. Inl (Extern ''timeout'')), accepted = 0\<rparr>"
    by (simp add: ex_server_def)
  from accept_loops_never_exit [OF l, of "\<lambda>h. True" ex_raw_listener ex_client]
  show ?thesis by blast
qed

subsection \<open>The proxy operation\<close>

lemma trimPort_example: "trimPort ''a.example:8080'' = ''a.example''"
  by (simp add: trimPort_def SplitHostPort_def lastIndex_def addrErr_def)

lemma proxy_returns_iff:
  "(\<exists>res. proxy valid_url host u msg io s = Some res)
     \<longleftrightarrow> \<not> valid_url host \<or> (remoteToLocal u io \<noteq> None \<and> l2rEnds io)"
  by (auto simp: proxy_def split: prod.splits option.splits)

text \<open>
  C9 as the claim states it fails twice. For an HTTP unit: a request that is proxied with
  both directions finished, through \<^verbatim>\<open>ServeHTTP\<close>, ends with the two ends of the pipe
  closed and with no close of the local unit; the state also is the one before the call.
  For a host that \<^verbatim>\<open>http.NewRequest\<close> refuses: the operation returns, and closes the
  raw connection, although neither direction has run (here neither would ever end).
\<close>

theorem proxy_close_and_wait_counterexample:
  "ServeHTTP (\<lambda>h. True) ex_request ex_proxy_io ex_server =
     Some ([StartProxying ex_http_msg ''a.example'', RemoteToLocalReturned (Responded 204),
            LocalToRemoteDone, DoneProxying ex_http_msg ''a.example'',
            PipeWriterClosed, PipeReaderClosed], ex_server)
   \<and> proxy (\<lambda>h. False) ''a.example'' (Raw ex_conn2) ex_raw_msg
         \<lparr>l2rEnds = False, roundTrip = None, readResponse = Inr 200, r2lEnds = False\<rparr> ex_server =
     Some ([StartProxying ex_raw_msg ''a.example'', RequestCreationFailed,
            PipeWriterClosed, PipeReaderClosed, LocalClosed ex_conn2],
           connClose ex_conn2 ex_server)"
proof -
  have http: "ServeHTTP (\<lambda>h. True) ex_request ex_proxy_io ex_server =
     Some ([StartProxying ex_http_msg ''a.example'', RemoteToLocalReturned (Responded 204),
            LocalToRemoteDone, DoneProxying ex_http_msg ''a.example'',
            PipeWriterClosed, PipeReaderClosed], ex_server)"
    by (simp add: ServeHTTP_def ex_request_def ex_proxy_io_def ex_http_msg_def HTTPProtocol_def
        trimPort_example proxy_def deferred_def remoteToLocal_def Let_def)
  have raw: "proxy (\<lambda>h. False) ''a.example'' (Raw ex_conn2) ex_raw_msg
         \<lparr>l2rEnds = False, roundTrip = None, readResponse = Inr 200, r2lEnds = False\<rparr> ex_server =
     Some ([StartProxying ex_raw_msg ''a.example'', RequestCreationFailed,
            PipeWriterClosed, PipeReaderClosed, LocalClosed ex_conn2],
           connClose ex_conn2 ex_server)"
    by (simp add: proxy_def deferred_def)
  from http raw show ?thesis by (rule conjI)
qed

text \<open>
  C9, amended. Whenever a proxy operation returns, and whichever direction failed: if the
  outbound request was built, \<^verbatim>\<open>remoteToLocal\<close> has returned and \<^verbatim>\<open>localToRemote\<close> has
  signalled its end before the operation is declared done; if the request could not be
  built, the operation returns at once and neither direction is started. In both cases
  the two ends of the pipe are closed on return, a raw connection is then closed as the
  last step, and an HTTP request, which is no \<^verbatim>\<open>io.Closer\<close>, is not closed by the
  operation.
\<close>

theorem proxy_waits_then_closes:
  assumes "proxy valid_url host u msg io s = Some (evs, s')"
  shows "(valid_url host \<longrightarrow>
           l2rEnds io \<and>
           (\<exists>res. remoteToLocal u io = Some res \<and>
              evs = [StartProxying msg host, RemoteToLocalReturned res, LocalToRemoteDone,
                     DoneProxying msg host] @ fst (deferred u s)))
    \<and> (\<not> valid_url host \<longrightarrow>
           evs = [StartProxying msg host, RequestCreationFailed] @ fst (deferred u s))
    \<and> (\<forall>c. u = Raw c \<longrightarrow>
           fst (deferred u s) = [PipeWriterClosed, PipeReaderClosed, LocalClosed c]
           \<and> s' = connClose c s \<and> c \<in> closedConns s')
    \<and> (\<forall>r. u = Http r \<longrightarrow>
           fst (deferred u s) = [PipeWriterClosed, PipeReaderClosed] \<and> s' = s)"
proof -
  have s': "s' = snd (deferred u s)"
    using assms by (auto simp: proxy_def split: prod.splits option.splits if_splits)
  have a: "valid_url host \<longrightarrow>
           l2rEnds io \<and>
           (\<exists>res. remoteToLocal u io = Some res \<and>
              evs = [StartProxying msg host, RemoteToLocalReturned res, LocalToRemoteDone,
                     DoneProxying msg host] @ fst (deferred u s))"
    using assms by (auto simp: proxy_def split: prod.splits option.splits if_splits)
  have b: "\<not> valid_url host \<longrightarrow>
           evs = [StartProxying msg host, RequestCreationFailed] @ fst (deferred u s)"
    using assms by (auto simp: proxy_def split: prod.splits option.splits if_splits)
  have c: "\<forall>c. u = Raw c \<longrightarrow>
           fst (deferred u s) = [PipeWriterClosed, PipeReaderClosed, LocalClosed c]
           \<and> s' = connClose c s \<and> c \<in> closedConns s'"
    using s' by (simp add: deferred_def connClose_def)
  have d: "\<forall>r. u = Http r \<longrightarrow>
           fst (deferred u s) = [PipeWriterClosed, PipeReaderClosed] \<and> s' = s"
    using s' by (simp add: deferred_def)
  from a b c d show ?thesis by blast
qed

theorem proxy_waits_then_closes_witness:
  "proxy (\<lambda>h. True) ''a.example'' (Raw ex_conn2) ex_raw_msg ex_no_route_io ex_server
     = Some ([StartProxying ex_raw_msg ''a.example'',
              RemoteToLocalReturned (ProxyingFailed (NoConnectionFor ''a.example:443'')),
              LocalToRemoteDone, DoneProxying ex_raw_msg ''a.example'',
              PipeWriterClosed, PipeReaderClosed, LocalClosed ex_conn2],
             connClose ex_conn2 ex_server)
   \<and> ex_conn2 \<in> closedConns (connClose ex_conn2 ex_server)"
proof -
  let ?evs = "[StartProxying ex_raw_msg ''a.example'',
      RemoteToLocalReturned (ProxyingFailed (NoConnectionFor ''a.example:443'')),
      LocalToRemoteDone, DoneProxying ex_raw_msg ''a.example'',
      PipeWriterClosed, PipeReaderClosed, LocalClosed ex_conn2]"
  have run: "proxy (\<lambda>h. True) ''a.example'' (Raw ex_conn2) ex_raw_msg ex_no_route_io ex_server
      = Some (?evs, connClose ex_conn2 ex_server)"
    by (simp add: proxy_def deferred_def remoteToLocal_def ex_no_route_io_def)
  from proxy_waits_then_closes [OF run, THEN conjunct2, THEN conjunct2, THEN conjunct1]
  have "ex_conn2 \<in> closedConns (connClose ex_conn2 ex_server)"
    by blast
  with run show ?thesis by blast
qed

subsection \<open>The routing host of an HTTP request\<close>

lemma IndexByte_None: "IndexByte s b = None \<longleftrightarrow> b \<notin> set s"
  by (induction s) auto

lemma IndexByte_first: "b \<notin> set h \<Longrightarrow> IndexByte (h @ b # p) b = Some (length h)"
  by (induction h) auto


lemma lastIndex_last: "b \<notin> set p \<Longrightarrow> lastIndex (h @ b # p) b = Some (length h)"
proof -
  assume "b \<notin> set p"
  then have "IndexByte (rev p @ b # rev h) b = Some (length (rev p))"
    by (intro IndexByte_first) simp
  then show ?thesis by (simp add: lastIndex_def)
qed




text \<open>A host in brackets loses the brackets together with the port.\<close>

lemma SplitHostPort_bracket:
  assumes h: "CHR ''['' \<notin> set h" "CHR '']'' \<notin> set h"
    and p: "CHR '':'' \<notin> set p" "CHR ''['' \<notin> set p" "CHR '']'' \<notin> set p"
  shows "SplitHostPort (CHR ''['' # h @ CHR '']'' # CHR '':'' # p) = (h, p, None)"
proof -
  let ?hp = "CHR ''['' # h @ CHR '']'' # CHR '':'' # p"
  have "lastIndex ((CHR ''['' # h @ [CHR '']'']) @ CHR '':'' # p) CHR '':''
      = Some (length (CHR ''['' # h @ [CHR '']'']))"
    using p(1) by (rule lastIndex_last)
  then have i: "lastIndex ?hp CHR '':'' = Some (Suc (Suc (length h)))" by simp
  have "IndexByte ((CHR ''['' # h) @ CHR '']'' # CHR '':'' # p) CHR '']''
      = Some (length (CHR ''['' # h))"
    using h(2) by (intro IndexByte_first) simp
  then have e: "IndexByte ?hp CHR '']'' = Some (Suc (length h))" by simp
  have ob: "IndexByte (h @ CHR '']'' # CHR '':'' # p) CHR ''['' = None"
    using h(1) p(2) by (simp add: IndexByte_None)
  have cb: "IndexByte (CHR '':'' # p) CHR '']'' = None"
    using p(3) by (simp add: IndexByte_None)
  show ?thesis
    unfolding SplitHostPort_def by (simp add: i e ob cb del: IndexByte.simps)
qed



end
